theory Spec2Isabelle
  imports Complex_Main
begin

section \<open>Numeric values of a series\<close>

text \<open>
  A cell of a pandas float series is a finite number, an infinity or the missing-value
  marker NaN. Finite values are modelled as exact reals (rounding and overflow of the
  64-bit format are outside the model); the special values follow the IEEE rules that
  numpy applies without raising: a finite non-zero number divided by zero is an infinity,
  zero divided by zero is NaN, a finite number divided by an infinity is zero, and NaN
  is absorbing. The sign of a zero is not tracked: a zero divisor gives the infinity of the
  sign of the dividend.
\<close>

datatype fval = Fin real | PInf | NInf | NaN

fun fneg :: "fval \<Rightarrow> fval" where
  "fneg (Fin x) = Fin (- x)"
| "fneg PInf = NInf"
| "fneg NInf = PInf"
| "fneg NaN = NaN"

fun fadd :: "fval \<Rightarrow> fval \<Rightarrow> fval" where
  "fadd (Fin x) (Fin y) = Fin (x + y)"
| "fadd (Fin x) PInf = PInf"
| "fadd (Fin x) NInf = NInf"
| "fadd PInf (Fin y) = PInf"
| "fadd PInf PInf = PInf"
| "fadd NInf (Fin y) = NInf"
| "fadd NInf NInf = NInf"
| "fadd _ _ = NaN"

definition fsub :: "fval \<Rightarrow> fval \<Rightarrow> fval" where
  "fsub a b = fadd a (fneg b)"

definition inf_of_sign :: "real \<Rightarrow> fval" where
  "inf_of_sign s = (if 0 < s then PInf else if s < 0 then NInf else NaN)"

fun fsgn :: "fval \<Rightarrow> real" where
  "fsgn (Fin x) = sgn x"
| "fsgn PInf = 1"
| "fsgn NInf = - 1"
| "fsgn NaN = 0"

fun fmul :: "fval \<Rightarrow> fval \<Rightarrow> fval" where
  "fmul NaN _ = NaN"
| "fmul _ NaN = NaN"
| "fmul (Fin x) (Fin y) = Fin (x * y)"
| "fmul a b = inf_of_sign (fsgn a * fsgn b)"

fun fdiv :: "fval \<Rightarrow> fval \<Rightarrow> fval" where
  "fdiv NaN _ = NaN"
| "fdiv _ NaN = NaN"
| "fdiv (Fin x) (Fin y) = (if y = 0 then inf_of_sign x else Fin (x / y))"
| "fdiv (Fin x) _ = Fin 0"
| "fdiv a (Fin y) = inf_of_sign (fsgn a * (if y < 0 then - 1 else 1))"
| "fdiv _ _ = NaN"

fun fsqrt :: "fval \<Rightarrow> fval" where
  "fsqrt (Fin x) = (if x < 0 then NaN else Fin (sqrt x))"
| "fsqrt PInf = PInf"
| "fsqrt _ = NaN"

text \<open>Comparison: every comparison with NaN is false.\<close>

fun fless :: "fval \<Rightarrow> fval \<Rightarrow> bool" where
  "fless (Fin x) (Fin y) = (x < y)"
| "fless (Fin x) PInf = True"
| "fless NInf (Fin y) = True"
| "fless NInf PInf = True"
| "fless _ _ = False"

type_synonym series = "fval list"

section \<open>The pandas operations the dashboard uses\<close>

text \<open>
  \<open>Series.diff()\<close>: the first entry is NaN, every later one the difference to its
  predecessor.
\<close>

definition diff :: "series \<Rightarrow> series" where
  "diff xs = map (\<lambda>i. if i = 0 then NaN else fsub (xs ! i) (xs ! (i - 1))) [0..<length xs]"

text \<open>\<open>s.where(cond, 0)\<close>: keep the entry where the condition holds, else put 0.\<close>

definition where0 :: "(fval \<Rightarrow> bool) \<Rightarrow> series \<Rightarrow> series" where
  "where0 cond xs = map (\<lambda>x. if cond x then x else Fin 0) xs"

text \<open>
  \<open>s.rolling(window=w)\<close>: the window at index \<open>i\<close> holds the entries at
  \<open>i - w + 1 .. i\<close> (fewer at the head of the series). With the default
  \<open>min_periods = w\<close> an aggregate is NaN unless the window holds \<open>w\<close> entries that are
  not NaN.
\<close>

definition window :: "nat \<Rightarrow> 'a list \<Rightarrow> nat \<Rightarrow> 'a list" where
  "window w xs i = drop (Suc i - w) (take (Suc i) xs)"

definition rolling :: "nat \<Rightarrow> (fval list \<Rightarrow> fval) \<Rightarrow> series \<Rightarrow> series" where
  "rolling w agg xs =
     map (\<lambda>i. let obs = filter (\<lambda>x. x \<noteq> NaN) (window w xs i)
              in if w \<le> length obs then agg obs else NaN) [0..<length xs]"

definition fsum :: "fval list \<Rightarrow> fval" where
  "fsum xs = foldl fadd (Fin 0) xs"

definition mean :: "fval list \<Rightarrow> fval" where
  "mean obs = fdiv (fsum obs) (Fin (real (length obs)))"

text \<open>\<open>.std()\<close> is the sample standard deviation (one degree of freedom removed).\<close>

definition std :: "fval list \<Rightarrow> fval" where
  "std obs =
     (let m = mean obs
      in fsqrt (fdiv (fsum (map (\<lambda>x. fmul (fsub x m) (fsub x m)) obs))
                     (Fin (real (length obs) - 1))))"

text \<open>
  \<open>s.cumsum()\<close>: the running sum from the start of the series; a NaN entry gives NaN at
  its own position and is left out of the sum.
\<close>

fun cumsum_from :: "fval \<Rightarrow> series \<Rightarrow> series" where
  "cumsum_from acc [] = []"
| "cumsum_from acc (x # xs) =
     (if x = NaN then NaN # cumsum_from acc xs
      else (let a = fadd acc x in a # cumsum_from a xs))"

definition cumsum :: "series \<Rightarrow> series" where
  "cumsum xs = cumsum_from (Fin 0) xs"

text \<open>
  \<open>s.ewm(span=n).mean()\<close>, with the smoothing factor \<open>2 / (n + 1)\<close>. It is applied
  to series of finite values only (the closing prices, and differences of their means),
  so it is modelled on reals. With \<open>adjust=False\<close> the mean is the recursion
  \<open>y\<^sub>0 = x\<^sub>0\<close>, \<open>y\<^sub>t = (1 - a) y\<^sub>t\<^sub>-\<^sub>1 + a x\<^sub>t\<close>; with the default \<open>adjust=True\<close> it is the
  weighted mean of all entries so far, the entry \<open>i\<close> steps back weighing \<open>(1 - a)^i\<close>.
\<close>

definition alpha :: "nat \<Rightarrow> real" where
  "alpha n = 2 / (real n + 1)"

fun ewm_rec :: "real \<Rightarrow> real \<Rightarrow> real list \<Rightarrow> real list" where
  "ewm_rec a y [] = []"
| "ewm_rec a y (x # xs) = (let y' = (1 - a) * y + a * x in y' # ewm_rec a y' xs)"

definition ewm_mean_noadjust :: "nat \<Rightarrow> real list \<Rightarrow> real list" where
  "ewm_mean_noadjust n xs =
     (case xs of [] \<Rightarrow> [] | x # xs' \<Rightarrow> x # ewm_rec (alpha n) x xs')"

definition ewm_mean :: "nat \<Rightarrow> real list \<Rightarrow> real list" where
  "ewm_mean n xs =
     map (\<lambda>t. sum_list (map (\<lambda>i. (1 - alpha n) ^ i * xs ! (t - i)) [0..<Suc t])
              / sum_list (map (\<lambda>i. (1 - alpha n) ^ i) [0..<Suc t]))
         [0..<length xs]"

text \<open>Arithmetic of two series on the same index, and of a scalar with a series.\<close>

definition ser2 :: "(fval \<Rightarrow> fval \<Rightarrow> fval) \<Rightarrow> series \<Rightarrow> series \<Rightarrow> series" where
  "ser2 f xs ys = map (\<lambda>(x, y). f x y) (zip xs ys)"

section \<open>The stored price data\<close>

record date =
  year :: nat
  month :: nat
  day :: nat

record row =
  r_date :: date
  r_open :: real
  r_high :: real
  r_low :: real
  r_close :: real
  r_volume :: real

text \<open>
  The data frame held in the session state: one row of prices and volume per trading
  date (finite numbers, as the data provider delivers them), and the columns that the
  program itself adds, by name.
\<close>

record dataframe =
  rows :: "row list"
  extra :: "string \<rightharpoonup> series"

definition index :: "dataframe \<Rightarrow> date list" where
  "index df = map r_date (rows df)"

definition close_values :: "dataframe \<Rightarrow> real list" where
  "close_values df = map r_close (rows df)"

definition Close :: "dataframe \<Rightarrow> series" where
  "Close df = map Fin (close_values df)"

definition Volume :: "dataframe \<Rightarrow> series" where
  "Volume df = map (\<lambda>r. Fin (r_volume r)) (rows df)"

section \<open>Relative strength index\<close>

definition rsi_gain :: "dataframe \<Rightarrow> nat \<Rightarrow> series" where
  "rsi_gain df w = rolling w mean (where0 (\<lambda>d. fless (Fin 0) d) (diff (Close df)))"

definition rsi_loss :: "dataframe \<Rightarrow> nat \<Rightarrow> series" where
  "rsi_loss df w = rolling w mean (map fneg (where0 (\<lambda>d. fless d (Fin 0)) (diff (Close df))))"

definition calculate_rsi :: "dataframe \<Rightarrow> nat \<Rightarrow> series" where
  "calculate_rsi df w =
     (let gain = rsi_gain df w;
          loss = rsi_loss df w;
          rs = ser2 fdiv gain loss
      in map (\<lambda>r. fsub (Fin 100) (fdiv (Fin 100) (fadd (Fin 1) r))) rs)"


section \<open>Moving average convergence/divergence\<close>

definition calculate_macd :: "dataframe \<Rightarrow> series \<times> series" where
  "calculate_macd df =
     (let exp1 = ewm_mean_noadjust 12 (close_values df);
          exp2 = ewm_mean_noadjust 26 (close_values df);
          macd = map (\<lambda>(a, b). a - b) (zip exp1 exp2);
          signal = ewm_mean_noadjust 9 macd
      in (map Fin macd, map Fin signal))"

section \<open>Adding indicators to the chart\<close>

datatype indicator = SMA20 | EMA20 | BB20 | VWAP | MACD | RSI

datatype error = IndexError | External string

text \<open>A line trace of the figure: its name, its points and the axis it is drawn on.\<close>

record trace =
  t_name :: string
  t_x :: "date list"
  t_y :: series
  t_yaxis :: string

definition Scatter :: "date list \<Rightarrow> series \<Rightarrow> string \<Rightarrow> string \<Rightarrow> trace" where
  "Scatter x y name yaxis = \<lparr>t_name = name, t_x = x, t_y = y, t_yaxis = yaxis\<rparr>"

text \<open>
  What a run of the script works on: the data frame of the session state, which
  outlives the run, and the figure being built.
\<close>

record state =
  s_data :: dataframe
  s_fig :: "trace list"

definition add_trace :: "trace \<Rightarrow> state \<Rightarrow> state" where
  "add_trace t s = s\<lparr>s_fig := s_fig s @ [t]\<rparr>"

definition sma20 :: "dataframe \<Rightarrow> series" where
  "sma20 df = rolling 20 mean (Close df)"

definition ema20 :: "dataframe \<Rightarrow> series" where
  "ema20 df = map Fin (ewm_mean 20 (close_values df))"

definition std20 :: "dataframe \<Rightarrow> series" where
  "std20 df = rolling 20 std (Close df)"

definition bb_upper :: "dataframe \<Rightarrow> series" where
  "bb_upper df = ser2 fadd (sma20 df) (map (fmul (Fin 2)) (std20 df))"

definition bb_lower :: "dataframe \<Rightarrow> series" where
  "bb_lower df = ser2 fsub (sma20 df) (map (fmul (Fin 2)) (std20 df))"

definition vwap :: "dataframe \<Rightarrow> series" where
  "vwap df = ser2 fdiv (cumsum (ser2 fmul (Close df) (Volume df))) (cumsum (Volume df))"

text \<open>
  \<open>add_indicator\<close> returns the error that stopped it, if any, and the state it left.
  Reading \<open>data.index[0]\<close> of a frame with no rows raises.
\<close>

fun add_indicator :: "indicator \<Rightarrow> state \<Rightarrow> error option \<times> state" where
  "add_indicator SMA20 s =
     (let data = s_data s
      in (None, add_trace (Scatter (index data) (sma20 data) ''SMA (20)'' ''y'') s))"
| "add_indicator EMA20 s =
     (let data = s_data s
      in (None, add_trace (Scatter (index data) (ema20 data) ''EMA (20)'' ''y'') s))"
| "add_indicator BB20 s =
     (let data = s_data s;
          s1 = add_trace (Scatter (index data) (bb_upper data) ''BB Upper'' ''y'') s
      in (None, add_trace (Scatter (index data) (bb_lower data) ''BB Lower'' ''y'') s1))"
| "add_indicator VWAP s =
     (let data = (s_data s)\<lparr>extra := (extra (s_data s))(''VWAP'' \<mapsto> vwap (s_data s))\<rparr>;
          s1 = s\<lparr>s_data := data\<rparr>
      in case extra data ''VWAP'' of
           None \<Rightarrow> (None, s1)
         | Some col \<Rightarrow> (None, add_trace (Scatter (index data) col ''VWAP'' ''y'') s1))"
| "add_indicator RSI s =
     (let data = s_data s;
          s1 = add_trace (Scatter (index data) (calculate_rsi data 14) ''RSI'' ''y2'') s
      in case index data of
           [] \<Rightarrow> (Some IndexError, s1)
         | d0 # _ \<Rightarrow>
             (let dl = last (index data);
                  s2 = add_trace (Scatter [d0, dl] [Fin 70, Fin 70] ''Overbought'' ''y2'') s1
              in (None, add_trace (Scatter [d0, dl] [Fin 30, Fin 30] ''Oversold'' ''y2'') s2)))"
| "add_indicator MACD s =
     (let data = s_data s;
          (macd, signal) = calculate_macd data;
          s1 = add_trace (Scatter (index data) macd ''MACD'' ''y3'') s
      in (None, add_trace (Scatter (index data) signal ''Signal'' ''y3'') s1))"

text \<open>The loop over the selected indicators; an error ends the run.\<close>

fun add_indicators :: "indicator list \<Rightarrow> state \<Rightarrow> error option \<times> state" where
  "add_indicators [] s = (None, s)"
| "add_indicators (ind # inds) s =
     (case add_indicator ind s of
        (Some e, s') \<Rightarrow> (Some e, s')
      | (None, s') \<Rightarrow> add_indicators inds s')"

section \<open>The technical-data text\<close>

definition nl :: string where
  "nl = [CHR 0x0A]"

text \<open>Decimal digits of a natural number.\<close>

definition digit :: "nat \<Rightarrow> char" where
  "digit n = ''0123456789'' ! (n mod 10)"

fun show_nat :: "nat \<Rightarrow> string" where
  "show_nat n = (if n < 10 then [digit n] else show_nat (n div 10) @ [digit n])"

declare show_nat.simps [simp del]

definition pad2 :: "nat \<Rightarrow> string" where
  "pad2 n = (if n < 10 then CHR ''0'' # show_nat n else show_nat n)"

text \<open>
  \<open>date.strftime('%Y-%m-%d')\<close>. The years of a pandas timestamp have four digits, so the
  padding of the year does not matter.
\<close>

definition strftime :: "date \<Rightarrow> string" where
  "strftime d = show_nat (year d) @ ''-'' @ pad2 (month d) @ ''-'' @ pad2 (day d)"

text \<open>
  The format \<open>:.2f\<close>: the value rounded to two decimals, a tie going to the even
  neighbour; NaN and the infinities are spelled out.
\<close>

definition round_half_even :: "real \<Rightarrow> int" where
  "round_half_even y =
     (let f = \<lfloor>y\<rfloor>; d = y - of_int f
      in if d < 1 / 2 then f else if 1 / 2 < d then f + 1 else if even f then f else f + 1)"

fun format_2f :: "fval \<Rightarrow> string" where
  "format_2f NaN = ''nan''"
| "format_2f PInf = ''inf''"
| "format_2f NInf = ''-inf''"
| "format_2f (Fin x) =
     (let n = nat (round_half_even (\<bar>x\<bar> * 100))
      in (if x < 0 then ''-'' else '''') @ show_nat (n div 100) @ ''.'' @ pad2 (n mod 100))"

text \<open>\<open>s.tail(n)\<close>: the last \<open>n\<close> entries, all of them if there are fewer.\<close>

definition tail :: "nat \<Rightarrow> 'a list \<Rightarrow> 'a list" where
  "tail n xs = drop (length xs - n) xs"

text \<open>A series computed from the frame carries the dates of the frame as its index.\<close>

definition items :: "dataframe \<Rightarrow> series \<Rightarrow> (date \<times> fval) list" where
  "items df xs = zip (index df) xs"

definition rsi_data :: "dataframe \<Rightarrow> string" where
  "rsi_data df =
     (let rsi = calculate_rsi df 14;
          recent_rsi = tail 10 (items df rsi)
      in foldl (\<lambda>acc (d, v). acc @ nl @ strftime d @ '': '' @ format_2f v)
               (nl @ ''Recent RSI values:'') recent_rsi)"

text \<open>
  The frame \<open>recent_data\<close> is built from the last ten entries of both series, which have
  the same dates; a row of it is a date with the two values.
\<close>

definition macd_data :: "dataframe \<Rightarrow> string" where
  "macd_data df =
     (let (macd, signal) = calculate_macd df;
          recent_data = map (\<lambda>((d, m), (d', s)). (d, m, s))
                            (zip (tail 10 (items df macd)) (tail 10 (items df signal)))
      in foldl (\<lambda>acc (d, m, s). acc @ nl @ strftime d @ '': MACD='' @ format_2f m
                                   @ '', Signal='' @ format_2f s)
               (nl @ nl @ ''Recent MACD values:'') recent_data)"

definition tech_data :: "dataframe \<Rightarrow> indicator list \<Rightarrow> string" where
  "tech_data df indicators =
     (let t0 = '''';
          t1 = (if RSI \<in> set indicators then t0 @ rsi_data df else t0);
          t2 = (if MACD \<in> set indicators then t1 @ macd_data df else t1)
      in t2)"

section \<open>The AI analysis\<close>

definition indent :: "nat \<Rightarrow> string" where
  "indent n = replicate n (CHR '' '')"

definition content :: "string \<Rightarrow> string" where
  "content td =
     ''You are a Stock Trader specializing in Technical Analysis at a top financial institution.''
     @ nl @ indent 28 @ ''Analyze the stock chart'' @ [CHR 0x27]
     @ ''s technical indicators and provide a buy/hold/sell recommendation.''
     @ nl @ indent 28
     @ ''Base your recommendation only on the candlestick chart and the displayed technical indicators.''
     @ nl @ indent 28
     @ ''First, provide the recommendation, then, provide your detailed reasoning.''
     @ nl @ indent 28
     @ nl @ indent 28 @ ''Additional Technical Data:'' @ td
     @ nl @ indent 16"

text \<open>
  What the handler gets from outside: the name of the temporary file (or the error of
  creating it), and the outcome of exporting the figure to a file, of reading and
  encoding a file, of the model call for a prompt and an image, and of showing a text.
\<close>

record externals =
  new_tempfile :: "error + string"
  write_image :: "trace list \<Rightarrow> string \<Rightarrow> error option"
  read_b64 :: "string \<Rightarrow> error + string"
  ollama_chat :: "string \<Rightarrow> string \<Rightarrow> error + string"
  st_write :: "string \<Rightarrow> error option"

text \<open>\<open>os.remove\<close> on the set of existing files.\<close>

definition os_remove :: "string \<Rightarrow> string set \<Rightarrow> error option \<times> string set" where
  "os_remove path files =
     (if path \<in> files then (None, files - {path})
      else (Some (External ''FileNotFoundError''), files))"

text \<open>
  The handler of the button, on the set of existing files: it returns the error that
  ended it, if any, and the files that exist afterwards. The temporary file is created
  with \<open>delete=False\<close>, so leaving the \<open>with\<close> block does not remove it.
\<close>

definition run_ai_analysis ::
    "externals \<Rightarrow> state \<Rightarrow> indicator list \<Rightarrow> string set \<Rightarrow> error option \<times> string set" where
  "run_ai_analysis ext s indicators files =
     (case new_tempfile ext of
        Inl e \<Rightarrow> (Some e, files)
      | Inr tmpfile_path \<Rightarrow>
          (let files1 = insert tmpfile_path files
           in case write_image ext (s_fig s) tmpfile_path of
                Some e \<Rightarrow> (Some e, files1)
              | None \<Rightarrow>
                  (case read_b64 ext tmpfile_path of
                     Inl e \<Rightarrow> (Some e, files1)
                   | Inr image_data \<Rightarrow>
                       (case ollama_chat ext (content (tech_data (s_data s) indicators))
                               image_data of
                          Inl e \<Rightarrow> (Some e, files1)
                        | Inr response \<Rightarrow>
                            (case st_write ext ''**AI Analysis Results:**'' of
                               Some e \<Rightarrow> (Some e, files1)
                             | None \<Rightarrow>
                                 (case st_write ext response of
                                    Some e \<Rightarrow> (Some e, files1)
                                  | None \<Rightarrow> os_remove tmpfile_path files1))))))"

section \<open>Notions used in the statements\<close>

text \<open>The last step of \<open>calculate_rsi\<close>, from the ratio of mean gain and mean loss.\<close>

definition rsi_of_rs :: "fval \<Rightarrow> fval" where
  "rsi_of_rs r = fsub (Fin 100) (fdiv (Fin 100) (fadd (Fin 1) r))"

text \<open>The rises and the falls of a sequence of prices, entry by entry.\<close>

definition ups :: "real list \<Rightarrow> real list" where
  "ups rs = map (\<lambda>i. if i = 0 then 0 else max 0 (rs ! i - rs ! (i - 1))) [0..<length rs]"

definition downs :: "real list \<Rightarrow> real list" where
  "downs rs = map (\<lambda>i. if i = 0 then 0 else max 0 (rs ! (i - 1) - rs ! i)) [0..<length rs]"

text \<open>The sample standard deviation of finitely many reals.\<close>

definition sample_sd :: "real list \<Rightarrow> real" where
  "sample_sd rs =
     sqrt (sum_list (map (\<lambda>x. (x - sum_list rs / real (length rs))\<^sup>2) rs)
           / (real (length rs) - 1))"

subsection \<open>Example data\<close>

definition example_row :: "nat \<Rightarrow> real \<Rightarrow> real \<Rightarrow> row" where
  "example_row d c v =
     \<lparr>r_date = \<lparr>year = 2024, month = 1, day = d\<rparr>,
      r_open = c, r_high = c, r_low = c, r_close = c, r_volume = v\<rparr>"

text \<open>A frame of consecutive days with the given closing prices and volume 1.\<close>

definition example_df :: "real list \<Rightarrow> dataframe" where
  "example_df cs =
     \<lparr>rows = map (\<lambda>(d, c). example_row d c 1) (zip [1..<Suc (length cs)] cs),
      extra = Map.empty\<rparr>"

definition rising :: "nat \<Rightarrow> real list" where
  "rising n = map real [1..<Suc n]"

definition zigzag :: "real list" where
  "zigzag = [10, 11, 10, 12, 11, 13, 12, 14, 13, 15, 14, 16, 15, 17]"



text \<open>A frame that holds the given price rows and no added column.\<close>

definition ohlcv :: "row list \<Rightarrow> dataframe" where
  "ohlcv rws = \<lparr>rows = rws, extra = Map.empty\<rparr>"

text \<open>
  The traces that an indicator adds when it is computed by itself, on an empty figure and
  from the price rows only.
\<close>

definition alone :: "row list \<Rightarrow> indicator \<Rightarrow> trace list" where
  "alone rws ind = s_fig (snd (add_indicator ind \<lparr>s_data = ohlcv rws, s_fig = []\<rparr>))"

text \<open>A session state: two days of prices and a column that some earlier run added.\<close>

definition session_example :: state where
  "session_example =
     \<lparr>s_data = \<lparr>rows = [example_row 1 10 2, example_row 2 20 1],
                extra = [''Note'' \<mapsto> [Fin 1, Fin 2]]\<rparr>,
      s_fig = []\<rparr>"

text \<open>An environment in which every outside step succeeds, and one whose model call raises.\<close>

definition all_fine :: externals where
  "all_fine =
     \<lparr>new_tempfile = Inr ''/tmp/tmpchart.png'',
      write_image = (\<lambda>fig path. None),
      read_b64 = (\<lambda>path. Inr ''aW1hZ2U=''),
      ollama_chat = (\<lambda>prompt image. Inr ''Hold.''),
      st_write = (\<lambda>text. None)\<rparr>"

definition chat_raises :: externals where
  "chat_raises = all_fine\<lparr>ollama_chat := (\<lambda>prompt image. Inl (External ''ConnectionError''))\<rparr>"

subsection \<open>Reading the technical-data text\<close>

text \<open>The lines of a text, as \<open>str.split\<close> gives them.\<close>

fun split_lines :: "string \<Rightarrow> string list" where
  "split_lines [] = [[]]"
| "split_lines (c # cs) =
     (if c = CHR 0x0A then [] # split_lines cs
      else (case split_lines cs of [] \<Rightarrow> [[c]] | l # ls \<Rightarrow> (c # l) # ls))"

text \<open>
  The block under a header line: the lines after the header, up to the next empty line
  or the end of the text.
\<close>

definition block_lines :: "string \<Rightarrow> string list \<Rightarrow> string list" where
  "block_lines header ls = takeWhile (\<lambda>l. l \<noteq> []) (tl (dropWhile (\<lambda>l. l \<noteq> header) ls))"

text \<open>The line of the text for one row of either block.\<close>

definition rsi_line :: "date \<times> fval \<Rightarrow> string" where
  "rsi_line p = strftime (fst p) @ '': '' @ format_2f (snd p)"

definition macd_line :: "date \<times> fval \<times> fval \<Rightarrow> string" where
  "macd_line p = strftime (fst p) @ '': MACD='' @ format_2f (fst (snd p))
                 @ '', Signal='' @ format_2f (snd (snd p))"

text \<open>The rows that the text reports: the last ten of the series, undefined values included.\<close>

definition recent_rsi :: "dataframe \<Rightarrow> (date \<times> fval) list" where
  "recent_rsi df = tail 10 (zip (index df) (calculate_rsi df 14))"

definition recent_macd :: "dataframe \<Rightarrow> (date \<times> fval \<times> fval) list" where
  "recent_macd df =
     tail 10 (zip (index df) (zip (fst (calculate_macd df)) (snd (calculate_macd df))))"

section \<open>Basic facts about the series operations\<close>

lemma length_diff [simp]: "length (diff xs) = length xs"
  by (simp add: diff_def)

lemma length_where0 [simp]: "length (where0 c xs) = length xs"
  by (simp add: where0_def)

lemma length_rolling [simp]: "length (rolling w agg xs) = length xs"
  by (simp add: rolling_def)

lemma length_ser2 [simp]: "length (ser2 f xs ys) = min (length xs) (length ys)"
  by (simp add: ser2_def)

lemma length_close_values [simp]: "length (close_values df) = length (rows df)"
  by (simp add: close_values_def)

lemma length_Close [simp]: "length (Close df) = length (rows df)"
  by (simp add: Close_def)

lemma length_Volume [simp]: "length (Volume df) = length (rows df)"
  by (simp add: Volume_def)

lemma length_index [simp]: "length (index df) = length (rows df)"
  by (simp add: index_def)

lemma length_rsi_gain [simp]: "length (rsi_gain df w) = length (rows df)"
  by (simp add: rsi_gain_def)

lemma length_rsi_loss [simp]: "length (rsi_loss df w) = length (rows df)"
  by (simp add: rsi_loss_def)

lemma length_calculate_rsi [simp]: "length (calculate_rsi df w) = length (rows df)"
  by (simp add: calculate_rsi_def Let_def)

lemma length_sma20 [simp]: "length (sma20 df) = length (rows df)"
  by (simp add: sma20_def)

lemma length_std20 [simp]: "length (std20 df) = length (rows df)"
  by (simp add: std20_def)

lemma ser2_nth:
  "i < length xs \<Longrightarrow> i < length ys \<Longrightarrow> ser2 f xs ys ! i = f (xs ! i) (ys ! i)"
  by (simp add: ser2_def)

lemma rolling_nth:
  "i < length xs \<Longrightarrow>
   rolling w agg xs ! i =
     (let obs = filter (\<lambda>x. x \<noteq> NaN) (window w xs i)
      in if w \<le> length obs then agg obs else NaN)"
  by (simp add: rolling_def)

lemma window_map: "window w (map f xs) i = map f (window w xs i)"
  by (simp add: window_def take_map drop_map)

lemma length_window: "i < length xs \<Longrightarrow> length (window w xs i) = min (Suc i) w"
  by (auto simp: window_def)

lemma filter_Fin [simp]: "filter (\<lambda>x. x \<noteq> NaN) (map Fin rs) = map Fin rs"
  by (induction rs) auto

lemma foldl_fadd_Fin: "foldl fadd (Fin a) (map Fin rs) = Fin (a + sum_list rs)"
  by (induction rs arbitrary: a) (simp_all add: add.assoc)

lemma fsum_Fin: "fsum (map Fin rs) = Fin (sum_list rs)"
  by (simp add: fsum_def foldl_fadd_Fin)

lemma fdiv_NaN_right [simp]: "fdiv x NaN = NaN"
  by (cases x) simp_all

text \<open>A window is the stretch of the series between two indices.\<close>

lemma window_nth_list:
  assumes "i < length xs"
  shows "window w xs i = map ((!) xs) [Suc i - w..<Suc i]"
proof (rule nth_equalityI)
  show "length (window w xs i) = length (map ((!) xs) [Suc i - w..<Suc i])"
    using assms by (simp add: length_window min_def) arith
next
  fix k assume "k < length (window w xs i)"
  then have k: "k < min (Suc i) w" using assms by (simp add: length_window)
  then have "Suc i - w + k < Suc i" by arith
  then show "window w xs i ! k = map ((!) xs) [Suc i - w..<Suc i] ! k"
    using assms k by (simp add: window_def del: upt_Suc)
qed

lemma sum_list_window:
  assumes "i < length rs"
  shows "sum_list (window w rs i) = (\<Sum>k = Suc i - w..i. rs ! k)"
proof -
  have "sum_list (window w rs i) = (\<Sum>k\<in>set [Suc i - w..<Suc i]. rs ! k)"
    using assms by (simp only: window_nth_list interv_sum_list_conv_sum_set_nat)
  also have "set [Suc i - w..<Suc i] = {Suc i - w..i}"
    by auto
  finally show ?thesis .
qed

lemma rolling_mean_Fin:
  assumes "i < length rs"
  shows "rolling w mean (map Fin rs) ! i =
     (if w \<le> Suc i then fdiv (Fin (\<Sum>k = Suc i - w..i. rs ! k)) (Fin (real w)) else NaN)"
  using assms
  by (auto simp: rolling_nth window_map length_window mean_def fsum_Fin sum_list_window
      Let_def min_def)

lemma mean_Fin: "rs \<noteq> [] \<Longrightarrow> mean (map Fin rs) = Fin (sum_list rs / real (length rs))"
  by (simp add: mean_def fsum_Fin)

lemma std_Fin:
  assumes "2 \<le> length rs"
  shows "std (map Fin rs) = Fin (sample_sd rs)"
proof -
  from assms have ne: "rs \<noteq> []" by auto
  let ?m = "sum_list rs / real (length rs)"
  have sq: "map (\<lambda>x. fmul (fsub x (Fin ?m)) (fsub x (Fin ?m))) (map Fin rs)
          = map Fin (map (\<lambda>x. (x - ?m)\<^sup>2) rs)"
    by (simp add: fsub_def power2_eq_square)
  have nn: "0 \<le> sum_list (map (\<lambda>x. (x - ?m)\<^sup>2) rs) / (real (length rs) - 1)"
    using assms by (intro divide_nonneg_nonneg sum_list_nonneg) auto
  have d: "real (length rs) - 1 \<noteq> 0" using assms by simp
  show ?thesis
    unfolding std_def Let_def mean_Fin [OF ne] sq fsum_Fin sample_sd_def
    using nn d by simp
qed

section \<open>Simple moving average and Bollinger bands\<close>

lemma sma20_nth:
  assumes "i < length (rows df)"
  shows "sma20 df ! i =
     (if 19 \<le> i then Fin ((\<Sum>k = i - 19..i. r_close (rows df ! k)) / 20) else NaN)"
proof -
  have eq: "Suc i - 20 = i - 19" by simp
  have "(\<Sum>k = i - 19..i. close_values df ! k) = (\<Sum>k = i - 19..i. r_close (rows df ! k))"
    using assms by (intro sum.cong) (auto simp: close_values_def)
  then show ?thesis
    using assms by (simp add: sma20_def Close_def rolling_mean_Fin eq)
qed

lemma std20_nth:
  assumes "i < length (rows df)"
  shows "std20 df ! i =
     (if 19 \<le> i then Fin (sample_sd (window 20 (close_values df) i)) else NaN)"
  using assms
  by (auto simp: std20_def Close_def rolling_nth window_map length_window std_Fin Let_def
      min_def)

text \<open>
  Claim C3. For every Close series, the 20-day simple moving average at an index
  \<open>i \<ge> 19\<close> is the arithmetic mean of the closing prices at the indices \<open>i - 19\<close> to
  \<open>i\<close>, and it is undefined (NaN) at the first 19 indices.
\<close>

theorem sma20_is_trailing_mean:
  assumes "i < length (rows df)"
  shows "(19 \<le> i \<longrightarrow> sma20 df ! i = Fin ((\<Sum>k = i - 19..i. r_close (rows df ! k)) / 20))
       \<and> (i < 19 \<longrightarrow> sma20 df ! i = NaN)"
  using assms by (simp add: sma20_nth)

theorem sma20_is_trailing_mean_witness:
  "sma20 (example_df (rising 21)) ! 20 = Fin (23 / 2)
   \<and> sma20 (example_df (rising 21)) ! 3 = NaN"
proof -
  have a: "20 < length (rows (example_df (rising 21)))" by code_simp
  have b: "3 < length (rows (example_df (rising 21)))" by code_simp
  have c: "(\<Sum>k = 20 - 19..20. r_close (rows (example_df (rising 21)) ! k)) / 20 = 23 / 2"
    by code_simp
  from sma20_is_trailing_mean [OF a] sma20_is_trailing_mean [OF b] c
  show ?thesis by simp
qed



section \<open>Relative strength index\<close>

lemma calculate_rsi_nth:
  "i < length (rows df) \<Longrightarrow>
   calculate_rsi df w ! i = rsi_of_rs (fdiv (rsi_gain df w ! i) (rsi_loss df w ! i))"
  by (simp add: calculate_rsi_def Let_def ser2_def rsi_of_rs_def)

lemma rsi_of_rs_NaN [simp]: "rsi_of_rs NaN = NaN"
  by (simp add: rsi_of_rs_def fsub_def)

lemma rsi_of_rs_zero_loss:
  "rsi_of_rs (fdiv g (Fin 0)) \<noteq> NaN \<Longrightarrow> rsi_of_rs (fdiv g (Fin 0)) = Fin 100"
  by (cases g) (auto simp: rsi_of_rs_def fsub_def inf_of_sign_def split: if_splits)

text \<open>
  Claim C1. At every index where the RSI that \<open>calculate_rsi\<close> returns is defined (not
  NaN), if the 14-window rolling mean loss is exactly zero then the RSI is 100. (The
  quotient of a positive mean gain by a zero mean loss is an infinity, which the last
  step maps to 100; where the mean gain is zero as well the quotient, and with it the
  RSI, is NaN.)
\<close>

theorem rsi_zero_loss_is_100:
  assumes "i < length (rows df)"
    and "calculate_rsi df 14 ! i \<noteq> NaN"
    and "rsi_loss df 14 ! i = Fin 0"
  shows "calculate_rsi df 14 ! i = Fin 100"
  using assms by (simp add: calculate_rsi_nth rsi_of_rs_zero_loss)

theorem rsi_zero_loss_is_100_witness:
  "13 < length (rows (example_df (rising 14)))
   \<and> calculate_rsi (example_df (rising 14)) 14 ! 13 \<noteq> NaN
   \<and> rsi_loss (example_df (rising 14)) 14 ! 13 = Fin 0
   \<and> calculate_rsi (example_df (rising 14)) 14 ! 13 = Fin 100"
proof -
  have a: "13 < length (rows (example_df (rising 14)))" by code_simp
  have b: "calculate_rsi (example_df (rising 14)) 14 ! 13 \<noteq> NaN" by code_simp
  have c: "rsi_loss (example_df (rising 14)) 14 ! 13 = Fin 0" by code_simp
  from rsi_zero_loss_is_100 [OF a b c] a b c show ?thesis by simp
qed

lemma diff_Fin_nth:
  "i < length rs \<Longrightarrow>
   diff (map Fin rs) ! i = (if i = 0 then NaN else Fin (rs ! i - rs ! (i - 1)))"
  by (simp add: diff_def fsub_def)

lemma gain_input: "where0 (\<lambda>d. fless (Fin 0) d) (diff (map Fin rs)) = map Fin (ups rs)"
  by (rule nth_equalityI) (auto simp: where0_def ups_def diff_Fin_nth max_def)

lemma loss_input:
  "map fneg (where0 (\<lambda>d. fless d (Fin 0)) (diff (map Fin rs))) = map Fin (downs rs)"
  by (rule nth_equalityI) (auto simp: where0_def downs_def diff_Fin_nth max_def)

lemma rsi_gain_ups: "rsi_gain df w = rolling w mean (map Fin (ups (close_values df)))"
  by (simp add: rsi_gain_def Close_def gain_input)

lemma rsi_loss_downs: "rsi_loss df w = rolling w mean (map Fin (downs (close_values df)))"
  by (simp add: rsi_loss_def Close_def loss_input)

lemma ups_nonneg: "x \<in> set (ups rs) \<Longrightarrow> 0 \<le> x"
  by (auto simp: ups_def)

lemma downs_nonneg: "x \<in> set (downs rs) \<Longrightarrow> 0 \<le> x"
  by (auto simp: downs_def)

lemma rolling_mean_nonneg:
  assumes "\<forall>x \<in> set rs. 0 \<le> x" and "i < length rs"
  shows "rolling w mean (map Fin rs) ! i = NaN
       \<or> (\<exists>g. 0 \<le> g \<and> rolling w mean (map Fin rs) ! i = Fin g)"
proof -
  have "0 \<le> (\<Sum>k = Suc i - w..i. rs ! k)"
    using assms by (intro sum_nonneg) auto
  then show ?thesis
    using assms(2) by (auto simp: rolling_mean_Fin inf_of_sign_def)
qed

lemma rsi_of_rs_bounds:
  assumes "0 \<le> g" and "0 \<le> l"
  shows "rsi_of_rs (fdiv (Fin g) (Fin l)) = NaN
       \<or> (\<exists>r. rsi_of_rs (fdiv (Fin g) (Fin l)) = Fin r \<and> 0 \<le> r \<and> r \<le> 100)"
proof (cases "l = 0")
  case True
  then show ?thesis
    using assms by (auto simp: rsi_of_rs_def fsub_def inf_of_sign_def)
next
  case False
  with assms have q: "0 \<le> g / l" by simp
  then have "1 + g / l \<noteq> 0" by linarith
  moreover have "100 / (1 + g / l) \<le> 100" using q by (simp add: divide_le_eq)
  moreover have "0 \<le> 100 / (1 + g / l)" using q by simp
  ultimately show ?thesis
    using False by (simp add: rsi_of_rs_def fsub_def)
qed

text \<open>
  Claim C6. For every Close series of finite values, at every index where the RSI that
  \<open>calculate_rsi\<close> returns is defined (not NaN), it is a finite number between 0 and 100.
\<close>

theorem rsi_between_0_and_100:
  assumes "i < length (rows df)" and "calculate_rsi df 14 ! i \<noteq> NaN"
  shows "\<exists>r. calculate_rsi df 14 ! i = Fin r \<and> 0 \<le> r \<and> r \<le> 100"
proof -
  let ?cs = "close_values df"
  have i: "i < length (ups ?cs)" "i < length (downs ?cs)"
    using assms(1) by (simp_all add: ups_def downs_def)
  from rolling_mean_nonneg [of "ups ?cs" i 14] i ups_nonneg
  have G: "rsi_gain df 14 ! i = NaN \<or> (\<exists>g. 0 \<le> g \<and> rsi_gain df 14 ! i = Fin g)"
    unfolding rsi_gain_ups by blast
  from rolling_mean_nonneg [of "downs ?cs" i 14] i downs_nonneg
  have L: "rsi_loss df 14 ! i = NaN \<or> (\<exists>g. 0 \<le> g \<and> rsi_loss df 14 ! i = Fin g)"
    unfolding rsi_loss_downs by blast
  from assms have n: "rsi_of_rs (fdiv (rsi_gain df 14 ! i) (rsi_loss df 14 ! i)) \<noteq> NaN"
    by (simp add: calculate_rsi_nth)
  from G L n obtain a b where ab: "0 \<le> a" "0 \<le> b"
    "rsi_gain df 14 ! i = Fin a" "rsi_loss df 14 ! i = Fin b"
    by auto
  with rsi_of_rs_bounds [of a b] n show ?thesis
    using assms(1) by (auto simp: calculate_rsi_nth)
qed

theorem rsi_between_0_and_100_witness:
  "13 < length (rows (example_df zigzag))
   \<and> calculate_rsi (example_df zigzag) 14 ! 13 \<noteq> NaN
   \<and> (\<exists>r. calculate_rsi (example_df zigzag) 14 ! 13 = Fin r \<and> 0 \<le> r \<and> r \<le> 100)"
proof -
  have a: "13 < length (rows (example_df zigzag))" by code_simp
  have b: "calculate_rsi (example_df zigzag) 14 ! 13 \<noteq> NaN" by code_simp
  from rsi_between_0_and_100 [OF a b] a b show ?thesis by simp
qed

section \<open>Volume-weighted average price\<close>


lemma length_cumsum_from [simp]: "length (cumsum_from a xs) = length xs"
  by (induction xs arbitrary: a) (simp_all add: Let_def)

lemma length_cumsum [simp]: "length (cumsum xs) = length xs"
  by (simp add: cumsum_def)




lemma length_vwap [simp]: "length (vwap df) = length (rows df)"
  by (simp add: vwap_def)






section \<open>A constant price series\<close>

lemma window_replicate:
  assumes "i < n"
  shows "window w (replicate n c) i = replicate (min (Suc i) w) c"
proof -
  have "min (Suc i) n - (Suc i - w) = min (Suc i) w"
    using assms by arith
  then show ?thesis
    by (simp only: window_def take_replicate drop_replicate)
qed

lemma mean_replicate: "0 < n \<Longrightarrow> mean (replicate n (Fin c)) = Fin c"
  using mean_Fin [of "replicate n c"] by (simp add: sum_list_replicate)

lemma sample_sd_replicate: "sample_sd (replicate n c) = 0"
  by (cases "n = 0") (simp_all add: sample_sd_def sum_list_replicate)

lemma ups_replicate: "ups (replicate n c) = replicate n 0"
  by (rule nth_equalityI) (auto simp: ups_def)

lemma downs_replicate: "downs (replicate n c) = replicate n 0"
  by (rule nth_equalityI) (auto simp: downs_def)

lemma weights_pos:
  fixes w :: real
  assumes "0 \<le> w"
  shows "0 < sum_list (map (\<lambda>i. w ^ i) [0..<Suc t])"
proof -
  have "sum_list (map (\<lambda>i. w ^ i) [0..<Suc t]) = (\<Sum>i = 0..<Suc t. w ^ i)"
    by (simp only: interv_sum_list_conv_sum_set_nat set_upt)
  also have "\<dots> = 1 + (\<Sum>i = 1..<Suc t. w ^ i)"
    by (simp add: sum.atLeast_Suc_lessThan del: sum.op_ivl_Suc)
  also have "0 < \<dots>"
    using assms by (intro add_pos_nonneg sum_nonneg) auto
  finally show ?thesis .
qed

lemma ewm_mean_replicate:
  assumes "1 \<le> n"
  shows "ewm_mean n (replicate m c) = replicate m c"
proof (rule nth_equalityI)
  show "length (ewm_mean n (replicate m c)) = length (replicate m c)"
    by (simp add: ewm_mean_def)
next
  fix t assume "t < length (ewm_mean n (replicate m c))"
  then have t: "t < m" by (simp add: ewm_mean_def)
  let ?w = "1 - alpha n"
  have w: "0 \<le> ?w" using assms by (simp add: alpha_def)
  have "map (\<lambda>i. ?w ^ i * replicate m c ! (t - i)) [0..<Suc t]
      = map (\<lambda>i. c * ?w ^ i) [0..<Suc t]"
    using t by (intro map_cong) (auto simp del: upt_Suc)
  then have "sum_list (map (\<lambda>i. ?w ^ i * replicate m c ! (t - i)) [0..<Suc t])
      = c * sum_list (map (\<lambda>i. ?w ^ i) [0..<Suc t])"
    by (simp only: sum_list_const_mult)
  moreover have "sum_list (map (\<lambda>i. ?w ^ i) [0..<Suc t]) \<noteq> 0"
    using weights_pos [OF w, of t] by simp
  ultimately show "ewm_mean n (replicate m c) ! t = replicate m c ! t"
    using t by (simp add: ewm_mean_def del: upt_Suc)
qed

lemma close_values_constant:
  assumes "\<forall>r \<in> set (rows df). r_close r = c"
  shows "close_values df = replicate (length (rows df)) c"
  using assms unfolding close_values_def
  by (intro nth_equalityI) auto

lemma sma20_constant:
  assumes "close_values df = replicate n c" and "i < n"
  shows "sma20 df ! i = (if 19 \<le> i then Fin c else NaN)"
proof -
  have n: "length (rows df) = n"
    using assms(1) length_close_values [of df] by simp
  show ?thesis
    using assms(2)
    by (simp add: sma20_def Close_def assms(1) rolling_nth window_map window_replicate
        mean_replicate Let_def min_def)
qed

lemma std20_constant:
  assumes "close_values df = replicate n c" and "i < n"
  shows "std20 df ! i = (if 19 \<le> i then Fin 0 else NaN)"
proof -
  have n: "length (rows df) = n"
    using assms(1) length_close_values [of df] by simp
  show ?thesis
    using assms(2) n
    by (simp add: std20_nth assms(1) window_replicate sample_sd_replicate)
qed

lemma rsi_constant:
  assumes "close_values df = replicate n c" and "i < n"
  shows "calculate_rsi df 14 ! i = NaN"
proof -
  have n: "length (rows df) = n"
    using assms(1) length_close_values [of df] by simp
  have "rsi_gain df 14 ! i = (if 13 \<le> i then Fin 0 else NaN)"
    using assms(2)
    by (simp add: rsi_gain_ups assms(1) ups_replicate rolling_nth window_map
        window_replicate mean_replicate Let_def min_def)
  moreover have "rsi_loss df 14 ! i = (if 13 \<le> i then Fin 0 else NaN)"
    using assms(2)
    by (simp add: rsi_loss_downs assms(1) downs_replicate rolling_nth window_map
        window_replicate mean_replicate Let_def min_def)
  ultimately show ?thesis
    using assms(2) n by (simp add: calculate_rsi_nth inf_of_sign_def)
qed

text \<open>
  Claim C4. For a series of 30 rows whose closing price is always 100: the 20-day SMA is
  undefined at the first 19 indices and 100 at the other 11, the 20-day EMA is 100 at
  all 30 indices, both Bollinger bands are equal to the SMA (undefined where it is,
  and of zero width where it is defined), and the RSI is undefined (NaN) at every index.
\<close>

theorem constant_series_indicators:
  assumes "length (rows df) = 30" and "\<forall>r \<in> set (rows df). r_close r = 100"
  shows "sma20 df = replicate 19 NaN @ replicate 11 (Fin 100)
       \<and> ema20 df = replicate 30 (Fin 100)
       \<and> bb_upper df = sma20 df
       \<and> bb_lower df = sma20 df
       \<and> calculate_rsi df 14 = replicate 30 NaN"
proof -
  have cv: "close_values df = replicate 30 100"
    using close_values_constant [OF assms(2)] assms(1) by simp
  have sma: "sma20 df = replicate 19 NaN @ replicate 11 (Fin 100)"
    by (rule nth_equalityI) (auto simp: assms(1) sma20_constant [OF cv] nth_append)
  have ema: "ema20 df = replicate 30 (Fin 100)"
    by (simp add: ema20_def cv ewm_mean_replicate)
  have up: "bb_upper df = sma20 df"
    by (rule nth_equalityI)
      (auto simp: assms(1) bb_upper_def ser2_nth sma20_constant [OF cv] std20_constant [OF cv])
  have lo: "bb_lower df = sma20 df"
    by (rule nth_equalityI)
      (auto simp: assms(1) bb_lower_def ser2_nth sma20_constant [OF cv] std20_constant [OF cv]
        fsub_def)
  have rsi: "calculate_rsi df 14 = replicate 30 NaN"
    by (rule nth_equalityI) (auto simp: assms(1) rsi_constant [OF cv])
  from sma ema up lo rsi show ?thesis by blast
qed

theorem constant_series_indicators_witness:
  "sma20 (example_df (replicate 30 100)) = replicate 19 NaN @ replicate 11 (Fin 100)
   \<and> ema20 (example_df (replicate 30 100)) = replicate 30 (Fin 100)
   \<and> bb_upper (example_df (replicate 30 100)) = sma20 (example_df (replicate 30 100))
   \<and> bb_lower (example_df (replicate 30 100)) = sma20 (example_df (replicate 30 100))
   \<and> calculate_rsi (example_df (replicate 30 100)) 14 = replicate 30 NaN"
proof -
  have a: "length (rows (example_df (replicate 30 100))) = 30" by code_simp
  have b: "\<forall>r \<in> set (rows (example_df (replicate 30 100))). r_close r = 100" by code_simp
  from constant_series_indicators [OF a b] show ?thesis .
qed


section \<open>The two exponential means\<close>

text \<open>
  Claim C10. The 20-day EMA overlay is the adjusted exponential mean (the weighted mean
  with normalised weights) of the closing prices, whereas the MACD line is the difference
  of the unadjusted, recursive exponential means of span 12 and 26 and the signal line is
  the unadjusted exponential mean of span 9 of the MACD line; and there is a series of at
  least two prices on which the adjusted and the unadjusted mean of the same span differ
  at some index.
\<close>

theorem two_exponential_means:
  "ema20 df = map Fin (ewm_mean 20 (close_values df))
   \<and> fst (calculate_macd df) =
       map Fin (map (\<lambda>(a, b). a - b)
         (zip (ewm_mean_noadjust 12 (close_values df)) (ewm_mean_noadjust 26 (close_values df))))
   \<and> snd (calculate_macd df) =
       map Fin (ewm_mean_noadjust 9 (map (\<lambda>(a, b). a - b)
         (zip (ewm_mean_noadjust 12 (close_values df)) (ewm_mean_noadjust 26 (close_values df)))))
   \<and> (\<exists>cs. 2 \<le> length cs
         \<and> (\<exists>i < length cs. ewm_mean 20 cs ! i \<noteq> ewm_mean_noadjust 20 cs ! i))"
proof -
  have "ewm_mean 20 [0, 1] ! 1 \<noteq> ewm_mean_noadjust 20 [0, 1] ! 1"
    by code_simp
  then have "\<exists>cs. 2 \<le> length cs
      \<and> (\<exists>i < length cs. ewm_mean 20 cs ! i \<noteq> ewm_mean_noadjust 20 cs ! i)"
    by (intro exI [of _ "[0, 1]"]) auto
  then show ?thesis
    by (simp add: ema20_def calculate_macd_def Let_def)
qed


theorem two_exponential_means_witness:
  "ema20 (example_df [0, 1]) = [Fin 0, Fin (21 / 40)]
   \<and> fst (calculate_macd (example_df [0, 1])) = [Fin 0, Fin (2 / 13 - 2 / 27)]"
proof -
  have a: "map Fin (ewm_mean 20 (close_values (example_df [0, 1]))) = [Fin 0, Fin (21 / 40)]"
    by code_simp
  have b: "map Fin (map (\<lambda>(a, b). a - b)
         (zip (ewm_mean_noadjust 12 (close_values (example_df [0, 1])))
              (ewm_mean_noadjust 26 (close_values (example_df [0, 1])))))
       = [Fin 0, Fin (2 / 13 - 2 / 27)]"
    by code_simp
  from two_exponential_means [of "example_df [0, 1]"] a b show ?thesis by simp
qed

section \<open>What computing the indicators changes\<close>

lemma rows_ohlcv [simp]: "rows (ohlcv rws) = rws"
  by (simp add: ohlcv_def)

lemma index_rows: "index df = index (ohlcv (rows df))"
  by (simp add: index_def)

lemma Close_rows: "Close df = Close (ohlcv (rows df))"
  by (simp add: Close_def close_values_def)

lemma Volume_rows: "Volume df = Volume (ohlcv (rows df))"
  by (simp add: Volume_def)

lemma sma20_rows: "sma20 df = sma20 (ohlcv (rows df))"
  by (simp add: sma20_def Close_def close_values_def)

lemma ema20_rows: "ema20 df = ema20 (ohlcv (rows df))"
  by (simp add: ema20_def close_values_def)

lemma bb_upper_rows: "bb_upper df = bb_upper (ohlcv (rows df))"
  by (simp add: bb_upper_def sma20_def std20_def Close_def close_values_def)

lemma bb_lower_rows: "bb_lower df = bb_lower (ohlcv (rows df))"
  by (simp add: bb_lower_def sma20_def std20_def Close_def close_values_def)

lemma vwap_rows: "vwap df = vwap (ohlcv (rows df))"
  by (simp add: vwap_def Close_def close_values_def Volume_def)

lemma calculate_rsi_rows: "calculate_rsi df w = calculate_rsi (ohlcv (rows df)) w"
  by (simp add: calculate_rsi_def rsi_gain_def rsi_loss_def Close_def close_values_def)

lemma calculate_macd_rows: "calculate_macd df = calculate_macd (ohlcv (rows df))"
  by (simp add: calculate_macd_def close_values_def)

lemma add_indicator_rows [simp]:
  "rows (s_data (snd (add_indicator ind s))) = rows (s_data s)"
  by (cases ind)
    (auto simp: Let_def add_trace_def split: list.splits prod.splits option.splits)

lemma add_indicator_extra:
  "extra (s_data (snd (add_indicator ind s))) =
     (if ind = VWAP then (extra (s_data s))(''VWAP'' \<mapsto> vwap (ohlcv (rows (s_data s))))
      else extra (s_data s))"
  using vwap_rows [of "s_data s"]
  by (cases ind)
    (auto simp: Let_def add_trace_def split: list.splits prod.splits option.splits)

lemma add_indicator_ok:
  "fst (add_indicator ind s) = None \<longleftrightarrow> (ind = RSI \<longrightarrow> rows (s_data s) \<noteq> [])"
  by (cases ind)
    (auto simp: Let_def add_trace_def index_def split: list.splits prod.splits option.splits)

lemma add_indicator_fig:
  assumes "fst (add_indicator ind s) = None"
  shows "s_fig (snd (add_indicator ind s)) = s_fig s @ alone (rows (s_data s)) ind"
proof (cases ind)
  case SMA20
  then show ?thesis
    using sma20_rows [of "s_data s"] index_rows [of "s_data s"]
    by (simp add: alone_def Let_def add_trace_def)
next
  case EMA20
  then show ?thesis
    using ema20_rows [of "s_data s"] index_rows [of "s_data s"]
    by (simp add: alone_def Let_def add_trace_def)
next
  case BB20
  then show ?thesis
    using bb_upper_rows [of "s_data s"] bb_lower_rows [of "s_data s"] index_rows [of "s_data s"]
    by (simp add: alone_def Let_def add_trace_def)
next
  case VWAP
  then show ?thesis
    using vwap_rows [of "s_data s"]
    by (simp add: alone_def Let_def add_trace_def index_def)
next
  case MACD
  then show ?thesis
    using calculate_macd_rows [of "s_data s"] index_rows [of "s_data s"]
    by (simp add: alone_def Let_def add_trace_def split: prod.splits)
next
  case RSI
  with assms add_indicator_ok [of ind s] have "rows (s_data s) \<noteq> []"
    by blast
  then obtain r rs where "rows (s_data s) = r # rs"
    by (cases "rows (s_data s)") auto
  then show ?thesis
    using RSI calculate_rsi_rows [of "s_data s" 14]
    by (simp add: alone_def Let_def add_trace_def index_def)
qed

lemma add_indicators_rows [simp]:
  "rows (s_data (snd (add_indicators inds s))) = rows (s_data s)"
proof (induction inds arbitrary: s)
  case Nil
  then show ?case by simp
next
  case (Cons ind inds)
  show ?case
  proof (cases "add_indicator ind s")
    case (Pair r s')
    with Cons [of s'] add_indicator_rows [of ind s] show ?thesis
      by (cases r) auto
  qed
qed

lemma add_indicators_other_columns:
  "k \<noteq> ''VWAP'' \<Longrightarrow> extra (s_data (snd (add_indicators inds s))) k = extra (s_data s) k"
proof (induction inds arbitrary: s)
  case Nil
  then show ?case by simp
next
  case (Cons ind inds)
  show ?case
  proof (cases "add_indicator ind s")
    case (Pair r s')
    with Cons.IH [of s'] Cons.prems add_indicator_extra [of ind s] show ?thesis
      by (cases r) (auto split: if_splits)
  qed
qed

lemma add_indicators_ok:
  "fst (add_indicators inds s) = None \<longleftrightarrow> (RSI \<in> set inds \<longrightarrow> rows (s_data s) \<noteq> [])"
proof (induction inds arbitrary: s)
  case Nil
  then show ?case by simp
next
  case (Cons ind inds)
  show ?case
  proof (cases "add_indicator ind s")
    case (Pair r s')
    with Cons [of s'] add_indicator_ok [of ind s] add_indicator_rows [of ind s]
    show ?thesis
      by (cases r) auto
  qed
qed

lemma add_indicators_result:
  assumes "fst (add_indicators inds s) = None"
  shows "s_fig (snd (add_indicators inds s)) =
           s_fig s @ concat (map (alone (rows (s_data s))) inds)
       \<and> extra (s_data (snd (add_indicators inds s))) =
           (if VWAP \<in> set inds
            then (extra (s_data s))(''VWAP'' \<mapsto> vwap (ohlcv (rows (s_data s))))
            else extra (s_data s))"
  using assms
proof (induction inds arbitrary: s)
  case Nil
  then show ?case by simp
next
  case (Cons ind inds)
  show ?case
  proof (cases "add_indicator ind s")
    case (Pair r s')
    with Cons.prems have r: "r = None" by (cases r) auto
    with Pair Cons.prems have ok: "fst (add_indicators inds s') = None" by simp
    from Pair r have f: "s_fig s' = s_fig s @ alone (rows (s_data s)) ind"
      using add_indicator_fig [of ind s] by simp
    from Pair have rw: "rows (s_data s') = rows (s_data s)"
      using add_indicator_rows [of ind s] by simp
    from Pair have ex: "extra (s_data s') =
        (if ind = VWAP then (extra (s_data s))(''VWAP'' \<mapsto> vwap (ohlcv (rows (s_data s))))
         else extra (s_data s))"
      using add_indicator_extra [of ind s] by simp
    from Cons.IH [OF ok] Pair r f rw ex show ?thesis
      by auto
  qed
qed

text \<open>
  Claim C8. Whatever indicators are selected and in whatever order, the run of
  \<open>add_indicator\<close> over them leaves the stored price rows unchanged and touches no stored
  column other than \<open>VWAP\<close>; the run is completed unless RSI is selected on a frame
  without rows; and when it is completed, each indicator has added exactly the traces
  that it computes by itself from the price rows, so its values depend neither on the
  other indicators nor on their order, and the only change of the stored frame is the
  column \<open>VWAP\<close>, written if and only if VWAP is selected.
\<close>

theorem indicators_frame:
  "rows (s_data (snd (add_indicators inds s))) = rows (s_data s)
   \<and> (\<forall>k. k \<noteq> ''VWAP'' \<longrightarrow>
         extra (s_data (snd (add_indicators inds s))) k = extra (s_data s) k)
   \<and> (fst (add_indicators inds s) = None \<longleftrightarrow> (RSI \<in> set inds \<longrightarrow> rows (s_data s) \<noteq> []))
   \<and> (fst (add_indicators inds s) = None \<longrightarrow>
         s_fig (snd (add_indicators inds s)) =
           s_fig s @ concat (map (alone (rows (s_data s))) inds)
       \<and> extra (s_data (snd (add_indicators inds s))) =
           (if VWAP \<in> set inds
            then (extra (s_data s))(''VWAP'' \<mapsto> vwap (ohlcv (rows (s_data s))))
            else extra (s_data s)))"
  using add_indicators_result [of inds s] add_indicators_ok [of inds s]
  by (simp add: add_indicators_other_columns)


theorem indicators_frame_witness:
  "rows (s_data (snd (add_indicators [VWAP, SMA20] session_example)))
     = [example_row 1 10 2, example_row 2 20 1]
   \<and> extra (s_data (snd (add_indicators [VWAP, SMA20] session_example))) ''Note''
       = Some [Fin 1, Fin 2]
   \<and> s_fig (snd (add_indicators [VWAP, SMA20] session_example))
       = alone (rows (s_data session_example)) VWAP @ alone (rows (s_data session_example)) SMA20
   \<and> s_fig (snd (add_indicators [SMA20, VWAP] session_example))
       = alone (rows (s_data session_example)) SMA20 @ alone (rows (s_data session_example)) VWAP
   \<and> extra (s_data (snd (add_indicators [VWAP, SMA20] session_example))) ''VWAP''
       = Some [Fin 10, Fin (40 / 3)]"
proof -
  have a: "fst (add_indicators [VWAP, SMA20] session_example) = None"
    by (simp only: add_indicators_ok) simp
  have a': "fst (add_indicators [SMA20, VWAP] session_example) = None"
    by (simp only: add_indicators_ok) simp
  have b: "rows (s_data session_example) = [example_row 1 10 2, example_row 2 20 1]"
    by (simp add: session_example_def)
  have c: "extra (s_data session_example) ''Note'' = Some [Fin 1, Fin 2]"
    by (simp add: session_example_def)
  have d: "s_fig session_example = []"
    by (simp add: session_example_def)
  have e: "vwap (ohlcv (rows (s_data session_example))) = [Fin 10, Fin (40 / 3)]"
    by code_simp
  from indicators_frame [of "[VWAP, SMA20]" session_example] indicators_frame [of "[SMA20, VWAP]" session_example]
    a a' b c d e
  show ?thesis by simp
qed

section \<open>The temporary file of the AI analysis\<close>

text \<open>
  Claim C9. Once the temporary file has been created: if the handler runs to its end,
  the file is deleted; if any later step fails (the export of the figure, the reading of
  the file, the model call, the display of the answer), the handler ends with that error
  and the file is still there, since nothing removes it on that path.
\<close>

theorem temp_file_cleanup:
  assumes "new_tempfile ext = Inr path"
  shows "(fst (run_ai_analysis ext s inds files) = None \<longrightarrow>
            path \<notin> snd (run_ai_analysis ext s inds files)
          \<and> snd (run_ai_analysis ext s inds files) = files - {path})
       \<and> (fst (run_ai_analysis ext s inds files) \<noteq> None \<longrightarrow>
            path \<in> snd (run_ai_analysis ext s inds files)
          \<and> snd (run_ai_analysis ext s inds files) = insert path files)
       \<and> (write_image ext (s_fig s) path = None \<and> read_b64 ext path = Inr img
          \<and> ollama_chat ext (content (tech_data (s_data s) inds)) img = Inl e \<longrightarrow>
            run_ai_analysis ext s inds files = (Some e, insert path files))"
  using assms
  by (auto simp: run_ai_analysis_def os_remove_def Let_def split: sum.splits option.splits)

theorem temp_file_cleanup_witness:
  "fst (run_ai_analysis all_fine session_example [RSI] {}) = None
   \<and> ''/tmp/tmpchart.png'' \<notin> snd (run_ai_analysis all_fine session_example [RSI] {})
   \<and> fst (run_ai_analysis chat_raises session_example [RSI] {})
       = Some (External ''ConnectionError'')
   \<and> ''/tmp/tmpchart.png'' \<in> snd (run_ai_analysis chat_raises session_example [RSI] {})"
proof -
  have a: "new_tempfile all_fine = Inr ''/tmp/tmpchart.png''"
    by (simp add: all_fine_def)
  have b: "new_tempfile chat_raises = Inr ''/tmp/tmpchart.png''"
    by (simp add: chat_raises_def all_fine_def)
  have c: "fst (run_ai_analysis all_fine session_example [RSI] {}) = None"
    by (simp add: run_ai_analysis_def all_fine_def os_remove_def)
  have d: "fst (run_ai_analysis chat_raises session_example [RSI] {})
         = Some (External ''ConnectionError'')"
    by (simp add: run_ai_analysis_def chat_raises_def all_fine_def)
  from temp_file_cleanup [OF a, of session_example "[RSI]" "{}"]
    temp_file_cleanup [OF b, of session_example "[RSI]" "{}"] c d
  show ?thesis by simp
qed

section \<open>The technical-data text\<close>

lemma digit_in: "digit n \<in> set ''0123456789''"
  unfolding digit_def by (rule nth_mem) simp

lemma show_nat_digits: "set (show_nat n) \<subseteq> set ''0123456789''"
proof (induction n rule: show_nat.induct)
  case (1 n)
  show ?case
  proof (cases "n < 10")
    case True
    then show ?thesis
      using digit_in [of n] by (subst show_nat.simps) simp
  next
    case False
    with 1 digit_in [of n] show ?thesis
      by (subst show_nat.simps) simp
  qed
qed

lemma show_nat_nonempty: "show_nat n \<noteq> []"
  by (subst show_nat.simps) simp

lemma no_nl_show_nat: "CHR 0x0A \<notin> set (show_nat n)"
  using show_nat_digits [of n] by auto

lemma no_nl_pad2: "CHR 0x0A \<notin> set (pad2 n)"
  by (simp add: pad2_def no_nl_show_nat)

lemma no_nl_strftime: "CHR 0x0A \<notin> set (strftime d)"
  by (simp add: strftime_def no_nl_show_nat no_nl_pad2)

lemma no_nl_format_2f: "CHR 0x0A \<notin> set (format_2f v)"
  by (cases v) (simp_all add: Let_def no_nl_show_nat no_nl_pad2)

lemma no_nl_rsi_line: "CHR 0x0A \<notin> set (rsi_line p)"
  by (simp add: rsi_line_def no_nl_strftime no_nl_format_2f)

lemma no_nl_macd_line: "CHR 0x0A \<notin> set (macd_line p)"
  by (simp add: macd_line_def no_nl_strftime no_nl_format_2f)

lemma strftime_hd: "strftime d \<noteq> [] \<and> hd (strftime d) \<in> set ''0123456789''"
proof -
  have "hd (show_nat (year d)) \<in> set (show_nat (year d))"
    using show_nat_nonempty by simp
  then have "hd (show_nat (year d)) \<in> set ''0123456789''"
    using show_nat_digits by blast
  then show ?thesis
    using show_nat_nonempty [of "year d"] by (simp add: strftime_def)
qed

lemma rsi_line_not_header: "rsi_line p \<noteq> ''Recent MACD values:''"
proof
  assume eq: "rsi_line p = ''Recent MACD values:''"
  have "hd (rsi_line p) = hd (strftime (fst p))"
    using strftime_hd [of "fst p"] by (simp add: rsi_line_def)
  with eq have "hd (strftime (fst p)) = CHR ''R''" by simp
  with strftime_hd [of "fst p"] show False by simp
qed

lemma rsi_line_nonempty: "rsi_line p \<noteq> []"
  by (simp add: rsi_line_def)

lemma macd_line_nonempty: "macd_line p \<noteq> []"
  by (simp add: macd_line_def)

lemma split_lines_nonempty: "split_lines s \<noteq> []"
  by (induction s) (auto split: list.splits)

lemma split_lines_prefix:
  "CHR 0x0A \<notin> set a \<Longrightarrow>
   split_lines (a @ b) = (a @ hd (split_lines b)) # tl (split_lines b)"
proof (induction a)
  case Nil
  then show ?case using split_lines_nonempty [of b] by simp
next
  case (Cons c a)
  then show ?case by auto
qed

lemma split_lines_nl: "split_lines (CHR 0x0A # cs) = [] # split_lines cs"
  by simp

lemma split_lines_line:
  "CHR 0x0A \<notin> set a \<Longrightarrow> split_lines (a @ CHR 0x0A # b) = a # split_lines b"
  by (simp add: split_lines_prefix)

lemma split_lines_last: "CHR 0x0A \<notin> set a \<Longrightarrow> split_lines a = [a]"
  using split_lines_prefix [of a "[]"] by simp

lemma split_lines_block:
  assumes "\<forall>l \<in> set ls. CHR 0x0A \<notin> set l" and "CHR 0x0A \<notin> set a"
  shows "split_lines (a @ concat (map ((@) nl) ls) @ CHR 0x0A # b) = a # ls @ split_lines b"
  using assms
proof (induction ls arbitrary: a)
  case Nil
  then show ?case by (simp add: split_lines_line)
next
  case (Cons l ls)
  from Cons.prems have l: "CHR 0x0A \<notin> set l" and ls: "\<forall>l \<in> set ls. CHR 0x0A \<notin> set l"
    by simp_all
  have e0: "a @ concat (map ((@) nl) (l # ls)) @ CHR 0x0A # b
      = a @ CHR 0x0A # (l @ concat (map ((@) nl) ls) @ CHR 0x0A # b)"
    by (simp add: nl_def)
  have e1: "split_lines (a @ CHR 0x0A # (l @ concat (map ((@) nl) ls) @ CHR 0x0A # b))
      = a # split_lines (l @ concat (map ((@) nl) ls) @ CHR 0x0A # b)"
    using Cons.prems(2) by (rule split_lines_line)
  show ?case
    by (simp only: e0 e1 Cons.IH [OF ls l] append_Cons)
qed

lemma split_lines_last_block:
  assumes "\<forall>l \<in> set ls. CHR 0x0A \<notin> set l" and "CHR 0x0A \<notin> set a"
  shows "split_lines (a @ concat (map ((@) nl) ls)) = a # ls"
  using assms
proof (induction ls arbitrary: a)
  case Nil
  then show ?case by (simp add: split_lines_last)
next
  case (Cons l ls)
  from Cons.prems have l: "CHR 0x0A \<notin> set l" and ls: "\<forall>l \<in> set ls. CHR 0x0A \<notin> set l"
    by simp_all
  have e0: "a @ concat (map ((@) nl) (l # ls))
      = a @ CHR 0x0A # (l @ concat (map ((@) nl) ls))"
    by (simp add: nl_def)
  have e1: "split_lines (a @ CHR 0x0A # (l @ concat (map ((@) nl) ls)))
      = a # split_lines (l @ concat (map ((@) nl) ls))"
    using Cons.prems(2) by (rule split_lines_line)
  show ?case
    by (simp only: e0 e1 Cons.IH [OF ls l])
qed

lemma foldl_lines:
  "foldl (\<lambda>acc p. acc @ nl @ f p) init ps = init @ concat (map ((@) nl) (map f ps))"
  by (induction ps arbitrary: init) simp_all

lemma rsi_data_lines:
  "rsi_data df =
     nl @ ''Recent RSI values:'' @ concat (map ((@) nl) (map rsi_line (recent_rsi df)))"
proof -
  have "(\<lambda>acc (d, v). acc @ nl @ strftime d @ '': '' @ format_2f v)
      = (\<lambda>acc p. acc @ nl @ rsi_line p)"
    by (simp add: fun_eq_iff rsi_line_def split: prod.splits)
  then have "rsi_data df = foldl (\<lambda>acc p. acc @ nl @ rsi_line p)
      (nl @ ''Recent RSI values:'') (recent_rsi df)"
    by (simp only: rsi_data_def Let_def items_def recent_rsi_def)
  then show ?thesis
    by (simp only: foldl_lines append_assoc)
qed

lemma length_ewm_rec [simp]: "length (ewm_rec a y xs) = length xs"
  by (induction xs arbitrary: y) (simp_all add: Let_def)

lemma length_ewm_mean_noadjust [simp]: "length (ewm_mean_noadjust n xs) = length xs"
  by (simp add: ewm_mean_noadjust_def split: list.splits)

lemma length_macd [simp]:
  "length (fst (calculate_macd df)) = length (rows df)"
  "length (snd (calculate_macd df)) = length (rows df)"
  by (simp_all add: calculate_macd_def Let_def)

lemma zip_rows:
  assumes "length a = length m" and "length m = length s"
  shows "map (\<lambda>((d, x), (d', y)). (d, x, y)) (zip (zip a m) (zip a s)) = zip a (zip m s)"
  using assms by (intro nth_equalityI) auto

lemma recent_data_rows:
  "map (\<lambda>((d, m), (d', s)). (d, m, s))
     (zip (tail 10 (items df (fst (calculate_macd df))))
          (tail 10 (items df (snd (calculate_macd df)))))
   = recent_macd df"
  by (simp add: tail_def items_def recent_macd_def drop_zip zip_rows)

lemma macd_data_lines:
  "macd_data df =
     nl @ nl @ ''Recent MACD values:'' @ concat (map ((@) nl) (map macd_line (recent_macd df)))"
proof -
  have "(\<lambda>acc (d, m, s). acc @ nl @ strftime d @ '': MACD='' @ format_2f m
                         @ '', Signal='' @ format_2f s)
      = (\<lambda>acc p. acc @ nl @ macd_line p)"
    by (simp add: fun_eq_iff macd_line_def split: prod.splits)
  moreover obtain macd signal where ms: "calculate_macd df = (macd, signal)"
    by (cases "calculate_macd df")
  moreover have "map (\<lambda>((d, m), (d', s)). (d, m, s))
      (zip (tail 10 (items df macd)) (tail 10 (items df signal))) = recent_macd df"
    using recent_data_rows [of df] by (simp only: ms fst_conv snd_conv)
  ultimately have "macd_data df = foldl (\<lambda>acc p. acc @ nl @ macd_line p)
      (nl @ nl @ ''Recent MACD values:'') (recent_macd df)"
    by (simp only: macd_data_def Let_def prod.case)
  then show ?thesis
    by (simp only: foldl_lines append_assoc)
qed

lemma split_two_blocks:
  assumes R: "\<forall>l \<in> set R. CHR 0x0A \<notin> set l"
    and M: "\<forall>l \<in> set M. CHR 0x0A \<notin> set l"
    and h1: "CHR 0x0A \<notin> set h1" and h2: "CHR 0x0A \<notin> set h2"
  shows "split_lines
           ((nl @ h1 @ concat (map ((@) nl) R)) @ (nl @ nl @ h2 @ concat (map ((@) nl) M)))
       = [] # h1 # R @ [] # h2 # M"
proof -
  define X where "X = concat (map ((@) nl) R)"
  define Y where "Y = concat (map ((@) nl) M)"
  have e0: "(nl @ h1 @ X) @ (nl @ nl @ h2 @ Y)
      = CHR 0x0A # (h1 @ X @ CHR 0x0A # CHR 0x0A # (h2 @ Y))"
    by (simp add: nl_def)
  have e1: "split_lines (h1 @ X @ CHR 0x0A # CHR 0x0A # (h2 @ Y))
      = h1 # R @ split_lines (CHR 0x0A # (h2 @ Y))"
    unfolding X_def by (rule split_lines_block [OF R h1])
  have e2: "split_lines (h2 @ Y) = h2 # M"
    unfolding Y_def by (rule split_lines_last_block [OF M h2])
  have "split_lines ((nl @ h1 @ X) @ (nl @ nl @ h2 @ Y)) = [] # h1 # R @ [] # h2 # M"
    by (simp only: e0 split_lines_nl e1 e2)
  then show ?thesis
    unfolding X_def Y_def .
qed

lemma tech_data_both:
  assumes "RSI \<in> set inds" and "MACD \<in> set inds"
  shows "tech_data df inds = rsi_data df @ macd_data df"
  using assms by (simp add: tech_data_def Let_def)

lemma tech_data_lines:
  assumes "RSI \<in> set inds" and "MACD \<in> set inds"
  shows "split_lines (tech_data df inds) =
           [] # ''Recent RSI values:'' # map rsi_line (recent_rsi df)
           @ [] # ''Recent MACD values:'' # map macd_line (recent_macd df)"
proof -
  have R: "\<forall>l \<in> set (map rsi_line (recent_rsi df)). CHR 0x0A \<notin> set l"
    by (auto simp: no_nl_rsi_line)
  have M: "\<forall>l \<in> set (map macd_line (recent_macd df)). CHR 0x0A \<notin> set l"
    by (auto simp: no_nl_macd_line)
  have h1: "CHR 0x0A \<notin> set ''Recent RSI values:''" by simp
  have h2: "CHR 0x0A \<notin> set ''Recent MACD values:''" by simp
  show ?thesis
    unfolding tech_data_both [OF assms] rsi_data_lines macd_data_lines
    by (rule split_two_blocks [OF R M h1 h2])
qed

lemma length_recent_rsi: "length (recent_rsi df) = min 10 (length (rows df))"
  by (simp add: recent_rsi_def tail_def)

lemma length_recent_macd: "length (recent_macd df) = min 10 (length (rows df))"
  by (simp add: recent_macd_def tail_def)

lemma rsi_block:
  assumes "RSI \<in> set inds" and "MACD \<in> set inds"
  shows "block_lines ''Recent RSI values:'' (split_lines (tech_data df inds))
       = map rsi_line (recent_rsi df)"
proof -
  have "takeWhile (\<lambda>l. l \<noteq> []) (map rsi_line (recent_rsi df) @ [] # rest)
      = map rsi_line (recent_rsi df)" for rest
    by (subst takeWhile_append2) (auto simp: rsi_line_nonempty)
  then show ?thesis
    by (simp add: block_lines_def tech_data_lines [OF assms])
qed

lemma macd_block:
  assumes "RSI \<in> set inds" and "MACD \<in> set inds"
  shows "block_lines ''Recent MACD values:'' (split_lines (tech_data df inds))
       = map macd_line (recent_macd df)"
proof -
  let ?P = "\<lambda>l. l \<noteq> ''Recent MACD values:''"
  have "dropWhile ?P (map rsi_line (recent_rsi df) @ rest) = dropWhile ?P rest" for rest
    by (rule dropWhile_append2) (auto simp: rsi_line_not_header)
  moreover have "takeWhile (\<lambda>l. l \<noteq> []) (map macd_line (recent_macd df))
      = map macd_line (recent_macd df)"
    by (auto simp: macd_line_nonempty)
  ultimately show ?thesis
    by (simp add: block_lines_def tech_data_lines [OF assms])
qed

text \<open>
  Claim C2, as amended. When both RSI and MACD are selected, the technical-data text
  consists of an empty line, the header \<open>Recent RSI values:\<close>, one line per row among
  the last ten rows of the series, an empty line, the header \<open>Recent MACD values:\<close> and
  again one line per row among the last ten rows. Each block thus has ten lines, or as
  many as the series has rows if these are fewer than ten; an RSI line is the date, a
  colon and the value with two decimals, a MACD line the date and both values with two
  decimals, and an undefined value is not left out but printed as \<open>nan\<close>.
\<close>

theorem tech_data_blocks:
  assumes "RSI \<in> set inds" and "MACD \<in> set inds"
  shows "split_lines (tech_data df inds) =
           [] # ''Recent RSI values:'' # map rsi_line (recent_rsi df)
           @ [] # ''Recent MACD values:'' # map macd_line (recent_macd df)
       \<and> block_lines ''Recent RSI values:'' (split_lines (tech_data df inds))
           = map rsi_line (recent_rsi df)
       \<and> block_lines ''Recent MACD values:'' (split_lines (tech_data df inds))
           = map macd_line (recent_macd df)
       \<and> length (recent_rsi df) = min 10 (length (rows df))
       \<and> length (recent_macd df) = min 10 (length (rows df))"
  using tech_data_lines [OF assms] rsi_block [OF assms] macd_block [OF assms]
  by (simp add: length_recent_rsi length_recent_macd)


theorem tech_data_blocks_witness:
  "length (block_lines ''Recent RSI values:''
      (split_lines (tech_data (example_df (rising 15)) [RSI, MACD]))) = 10
   \<and> length (block_lines ''Recent MACD values:''
      (split_lines (tech_data (example_df (rising 15)) [RSI, MACD]))) = 10
   \<and> length (block_lines ''Recent RSI values:''
      (split_lines (tech_data (example_df (rising 3)) [MACD, RSI]))) = 3"
proof -
  have a: "RSI \<in> set [RSI, MACD]" "MACD \<in> set [RSI, MACD]" by simp_all
  have b: "RSI \<in> set [MACD, RSI]" "MACD \<in> set [MACD, RSI]" by simp_all
  have c: "length (rows (example_df (rising 15))) = 15" by code_simp
  have d: "length (rows (example_df (rising 3))) = 3" by code_simp
  note big = tech_data_blocks [OF a, of "example_df (rising 15)"]
  note small = tech_data_blocks [OF b, of "example_df (rising 3)"]
  from big have r15: "block_lines ''Recent RSI values:''
      (split_lines (tech_data (example_df (rising 15)) [RSI, MACD]))
      = map rsi_line (recent_rsi (example_df (rising 15)))"
    and m15: "block_lines ''Recent MACD values:''
      (split_lines (tech_data (example_df (rising 15)) [RSI, MACD]))
      = map macd_line (recent_macd (example_df (rising 15)))"
    and lr15: "length (recent_rsi (example_df (rising 15)))
      = min 10 (length (rows (example_df (rising 15))))"
    and lm15: "length (recent_macd (example_df (rising 15)))
      = min 10 (length (rows (example_df (rising 15))))"
    by blast+
  from small have r3: "block_lines ''Recent RSI values:''
      (split_lines (tech_data (example_df (rising 3)) [MACD, RSI]))
      = map rsi_line (recent_rsi (example_df (rising 3)))"
    and lr3: "length (recent_rsi (example_df (rising 3)))
      = min 10 (length (rows (example_df (rising 3))))"
    by blast+
  have 1: "length (block_lines ''Recent RSI values:''
      (split_lines (tech_data (example_df (rising 15)) [RSI, MACD]))) = 10"
    unfolding r15 using lr15 c by simp
  have 2: "length (block_lines ''Recent MACD values:''
      (split_lines (tech_data (example_df (rising 15)) [RSI, MACD]))) = 10"
    unfolding m15 using lm15 c by simp
  have 3: "length (block_lines ''Recent RSI values:''
      (split_lines (tech_data (example_df (rising 3)) [MACD, RSI]))) = 3"
    unfolding r3 using lr3 d by simp
  from 1 2 3 show ?thesis by blast
qed

text \<open>
  The number of lines does not follow the number of defined points: a series of 15 rows
  has two defined RSI values, and its RSI block still has ten lines, the first of them
  for an undefined value.
\<close>

theorem rsi_block_lines_counterexample:
  "length (filter (\<lambda>v. v \<noteq> NaN) (calculate_rsi (example_df (rising 15)) 14)) < 10
   \<and> \<not> length (block_lines ''Recent RSI values:''
          (split_lines (tech_data (example_df (rising 15)) [RSI, MACD]))) < 10
   \<and> block_lines ''Recent RSI values:''
          (split_lines (tech_data (example_df (rising 15)) [RSI, MACD])) ! 0
       = ''2024-01-06: nan''"
proof -
  have a: "RSI \<in> set [RSI, MACD]" "MACD \<in> set [RSI, MACD]" by simp_all
  have c: "length (rows (example_df (rising 15))) = 15" by code_simp
  have d: "length (filter (\<lambda>v. v \<noteq> NaN) (calculate_rsi (example_df (rising 15)) 14))
      = 2"
    by code_simp
  have e: "recent_rsi (example_df (rising 15)) ! 0
      = (\<lparr>year = 2024, month = 1, day = 6\<rparr>, NaN)"
    by code_simp
  have f: "rsi_line (\<lparr>year = 2024, month = 1, day = 6\<rparr>, NaN) = ''2024-01-06: nan''"
    by (simp add: rsi_line_def strftime_def pad2_def show_nat.simps digit_def)
  have len: "length (recent_rsi (example_df (rising 15))) = 10"
    using length_recent_rsi [of "example_df (rising 15)"] c by simp
  have blk: "block_lines ''Recent RSI values:''
      (split_lines (tech_data (example_df (rising 15)) [RSI, MACD]))
      = map rsi_line (recent_rsi (example_df (rising 15)))"
    by (rule rsi_block [OF a])
  from len e f
  have "map rsi_line (recent_rsi (example_df (rising 15))) ! 0 = ''2024-01-06: nan''"
    by simp
  with d len show ?thesis
    unfolding blk by simp
qed

end
